theory Spec2Isabelle
  imports Complex_Main "HOL-Library.Word"
begin

unbundle bit_operations_syntax

section \<open>Single-precision values\<close>

text \<open>
  The kernels compute on C++ \<open>float\<close>, the binary32 format of IEEE-754. A value of the
  model is NaN (one NaN), an infinity, the negative zero, or \<open>Fin a\<close> for a real number
  \<open>a\<close>; \<open>Fin 0\<close> is the positive zero. The result of an operation on finite values is
  the exact result rounded to the nearest binary32 number, ties to even, with gradual
  underflow and overflow to infinity. Comparisons, \<open>std::min\<close> and \<open>std::max\<close> follow
  the C++ definitions, so every comparison with NaN is false and the two zeros are equal.
\<close>

datatype f32 = NaN | NegInf | NegZero | Fin real | PosInf

fun signbit :: "f32 \<Rightarrow> bool" where
  "signbit NegInf = True"
| "signbit NegZero = True"
| "signbit (Fin a) = (a < 0)"
| "signbit _ = False"

fun realOf :: "f32 \<Rightarrow> real" where
  "realOf (Fin a) = a"
| "realOf _ = 0"

fun isInf :: "f32 \<Rightarrow> bool" where
  "isInf NegInf = True"
| "isInf PosInf = True"
| "isInf _ = False"

definition isZero :: "f32 \<Rightarrow> bool" where
  "isZero a = (a = NegZero \<or> a = Fin 0)"

definition zeroOf :: "bool \<Rightarrow> f32" where
  "zeroOf negative = (if negative then NegZero else Fin 0)"

definition infOf :: "bool \<Rightarrow> f32" where
  "infOf negative = (if negative then NegInf else PosInf)"

text \<open>
  Rounding to binary32. A number \<open>t\<close> with \<open>2^e \<le> |t| < 2^(e+1)\<close> is rounded to a
  multiple of \<open>2^(e - 23)\<close>, and to a multiple of \<open>2^-149\<close> when \<open>e < -126\<close>; a
  result of magnitude \<open>2^128\<close> is an infinity, and a result that vanishes keeps the sign
  of \<open>t\<close>.
\<close>

definition roundEven :: "real \<Rightarrow> int" where
  "roundEven t = (if t - of_int \<lfloor>t\<rfloor> < 1 / 2 then \<lfloor>t\<rfloor>
                  else if 1 / 2 < t - of_int \<lfloor>t\<rfloor> then \<lfloor>t\<rfloor> + 1
                  else if even \<lfloor>t\<rfloor> then \<lfloor>t\<rfloor> else \<lfloor>t\<rfloor> + 1)"

definition ulpExp :: "real \<Rightarrow> int" where
  "ulpExp t = max \<lfloor>log 2 \<bar>t\<bar>\<rfloor> (- 126) - 23"

definition roundF32 :: "real \<Rightarrow> f32" where
  "roundF32 t =
     (if t = 0 then Fin 0
      else (let q = 2 powr of_int (ulpExp t);
                m = roundEven (t / q)
            in if m = 0 then zeroOf (t < 0)
               else if 2 ^ 128 \<le> \<bar>of_int m * q\<bar> then infOf (t < 0)
               else Fin (of_int m * q)))"

fun flt :: "f32 \<Rightarrow> f32 \<Rightarrow> bool" where
  "flt NaN _ = False"
| "flt _ NaN = False"
| "flt _ NegInf = False"
| "flt NegInf _ = True"
| "flt PosInf _ = False"
| "flt _ PosInf = True"
| "flt a b = (realOf a < realOf b)"

definition fgt :: "f32 \<Rightarrow> f32 \<Rightarrow> bool" where
  "fgt a b = flt b a"

fun fneg :: "f32 \<Rightarrow> f32" where
  "fneg NaN = NaN"
| "fneg NegInf = PosInf"
| "fneg NegZero = Fin 0"
| "fneg (Fin a) = (if a = 0 then NegZero else Fin (- a))"
| "fneg PosInf = NegInf"

fun fadd :: "f32 \<Rightarrow> f32 \<Rightarrow> f32" where
  "fadd NaN _ = NaN"
| "fadd _ NaN = NaN"
| "fadd PosInf NegInf = NaN"
| "fadd NegInf PosInf = NaN"
| "fadd PosInf _ = PosInf"
| "fadd NegInf _ = NegInf"
| "fadd _ PosInf = PosInf"
| "fadd _ NegInf = NegInf"
| "fadd NegZero NegZero = NegZero"
| "fadd a b = roundF32 (realOf a + realOf b)"

definition fsub :: "f32 \<Rightarrow> f32 \<Rightarrow> f32" where
  "fsub a b = fadd a (fneg b)"

definition fmul :: "f32 \<Rightarrow> f32 \<Rightarrow> f32" where
  "fmul a b =
     (if a = NaN \<or> b = NaN then NaN
      else if isInf a \<or> isInf b then
        (if isZero a \<or> isZero b then NaN else infOf (signbit a \<noteq> signbit b))
      else if realOf a * realOf b = 0 then zeroOf (signbit a \<noteq> signbit b)
      else roundF32 (realOf a * realOf b))"

definition fdiv :: "f32 \<Rightarrow> f32 \<Rightarrow> f32" where
  "fdiv a b =
     (if a = NaN \<or> b = NaN then NaN
      else if isInf a then (if isInf b then NaN else infOf (signbit a \<noteq> signbit b))
      else if isInf b then zeroOf (signbit a \<noteq> signbit b)
      else if isZero b then (if isZero a then NaN else infOf (signbit a \<noteq> signbit b))
      else if isZero a then zeroOf (signbit a \<noteq> signbit b)
      else roundF32 (realOf a / realOf b))"

text \<open>\<open>std::min(a, b)\<close> is \<open>(b < a) ? b : a\<close> and \<open>std::max(a, b)\<close> is \<open>(a < b) ? b : a\<close>.\<close>

definition std_min :: "f32 \<Rightarrow> f32 \<Rightarrow> f32" where
  "std_min a b = (if flt b a then b else a)"

definition std_max :: "f32 \<Rightarrow> f32 \<Rightarrow> f32" where
  "std_max a b = (if flt a b then b else a)"

section \<open>geometry.hpp\<close>

text \<open>
  The constants are the binary32 numbers nearest to \<open>2 \<pi>\<close>, \<open>1 / \<pi>\<close> and
  \<open>1 / (2 \<pi>)\<close>: \<open>13176795 / 2^21 = 6.28318548\<dots>\<close>, \<open>10680707 / 2^25 = 0.318309873\<dots>\<close>
  and \<open>10680707 / 2^26\<close>.
\<close>

definition TwoPi :: f32 where
  "TwoPi = Fin (13176795 / 2 ^ 21)"

definition InvPi :: f32 where
  "InvPi = Fin (10680707 / 2 ^ 25)"

definition Inv2Pi :: f32 where
  "Inv2Pi = Fin (10680707 / 2 ^ 26)"

record Vec3fa =
  x :: f32
  y :: f32
  z :: f32

definition vec3 :: "f32 \<Rightarrow> f32 \<Rightarrow> f32 \<Rightarrow> Vec3fa" where
  "vec3 a b d = \<lparr>x = a, y = b, z = d\<rparr>"

definition vec1 :: "f32 \<Rightarrow> Vec3fa" where
  "vec1 a = vec3 a a a"

text \<open>\<open>operator[]\<close> reads the union member \<open>c[i]\<close>; an index above 2 is outside the array.\<close>

definition c :: "Vec3fa \<Rightarrow> 32 word \<Rightarrow> f32 option" where
  "c w i = (if i = 0 then Some (x w) else if i = 1 then Some (y w)
            else if i = 2 then Some (z w) else None)"

definition vadd :: "Vec3fa \<Rightarrow> Vec3fa \<Rightarrow> Vec3fa" where
  "vadd a b = vec3 (fadd (x a) (x b)) (fadd (y a) (y b)) (fadd (z a) (z b))"

definition vmul :: "Vec3fa \<Rightarrow> Vec3fa \<Rightarrow> Vec3fa" where
  "vmul a b = vec3 (fmul (x a) (x b)) (fmul (y a) (y b)) (fmul (z a) (z b))"

definition vscale :: "Vec3fa \<Rightarrow> f32 \<Rightarrow> Vec3fa" where
  "vscale a f = vec3 (fmul (x a) f) (fmul (y a) f) (fmul (z a) f)"

definition vmin :: "Vec3fa \<Rightarrow> Vec3fa \<Rightarrow> Vec3fa" where
  "vmin a b = vec3 (std_min (x a) (x b)) (std_min (y a) (y b)) (std_min (z a) (z b))"

definition vmax :: "Vec3fa \<Rightarrow> Vec3fa \<Rightarrow> Vec3fa" where
  "vmax a b = vec3 (std_max (x a) (x b)) (std_max (y a) (y b)) (std_max (z a) (z b))"

definition maxi :: "Vec3fa \<Rightarrow> 32 word" where
  "maxi w = (if flt (x w) (y w) then (if flt (x w) (z w) then 0 else 2)
             else (if flt (y w) (z w) then 1 else 2))"

definition maxc :: "Vec3fa \<Rightarrow> f32 option" where
  "maxc w = c w (maxi w)"

definition squaredNorm :: "Vec3fa \<Rightarrow> f32" where
  "squaredNorm w = fadd (fadd (fmul (x w) (x w)) (fmul (y w) (y w))) (fmul (z w) (z w))"

record Bounds3d =
  bmin :: Vec3fa
  bmax :: Vec3fa

definition Bounds3d_default :: Bounds3d where
  "Bounds3d_default = \<lparr>bmin = vec1 PosInf, bmax = vec1 (fneg PosInf)\<rparr>"

definition extend_box :: "Bounds3d \<Rightarrow> Bounds3d \<Rightarrow> Bounds3d" where
  "extend_box b other =
     \<lparr>bmin = vec3 (std_min (x (bmin b)) (x (bmin other)))
                  (std_min (y (bmin b)) (y (bmin other)))
                  (std_min (z (bmin b)) (z (bmin other))),
      bmax = vec3 (std_max (x (bmax b)) (x (bmax other)))
                  (std_max (y (bmax b)) (y (bmax other)))
                  (std_max (z (bmax b)) (z (bmax other)))\<rparr>"

definition extend_point :: "Bounds3d \<Rightarrow> Vec3fa \<Rightarrow> Bounds3d" where
  "extend_point b w =
     \<lparr>bmin = vec3 (std_min (x (bmin b)) (x w)) (std_min (y (bmin b)) (y w))
                  (std_min (z (bmin b)) (z w)),
      bmax = vec3 (std_max (x (bmax b)) (x w)) (std_max (y (bmax b)) (y w))
                  (std_max (z (bmax b)) (z w))\<rparr>"

record PixelCoord =
  u :: f32
  v :: f32

record Ray =
  origin :: Vec3fa
  tMin :: f32
  direction :: Vec3fa
  tMax :: f32

definition Ray_ctor :: "Vec3fa \<Rightarrow> Vec3fa \<Rightarrow> Ray" where
  "Ray_ctor o' d = \<lparr>origin = o', tMin = Fin 0, direction = d, tMax = PosInf\<rparr>"

definition InvalidGeomID :: "16 word" where
  "InvalidGeomID = - 1"

definition InvalidPrimID :: "32 word" where
  "InvalidPrimID = - 1"

definition ERROR :: "16 word" where
  "ERROR = 1"

definition ESCAPED :: "16 word" where
  "ESCAPED = 2"

record HitRecord =
  r :: Ray
  primID :: "32 word"
  normal :: Vec3fa
  throughput :: Vec3fa
  geomID :: "16 word"
  flags :: "16 word"

text \<open>
  The constructor \<open>HitRecord(origin, dir)\<close> leaves \<open>throughput\<close> uninitialised; the
  model takes the value the member happens to hold as an argument.
\<close>

definition HitRecord_ctor :: "Vec3fa \<Rightarrow> Vec3fa \<Rightarrow> Vec3fa \<Rightarrow> HitRecord" where
  "HitRecord_ctor orig dir uninit =
     \<lparr>r = Ray_ctor orig dir, primID = InvalidPrimID, normal = vec3 (Fin 0) (Fin 0) (Fin 1),
      throughput = uninit, geomID = InvalidGeomID, flags = 0\<rparr>"

record TraceResult =
  rgb :: Vec3fa
  p :: PixelCoord
  h :: HitRecord

section \<open>Scene.hpp and the code the kernels call\<close>

text \<open>
  Modelled from the spec: \<open>Material.hpp\<close> is not among the sources. A material has a
  tag, an emissive flag, an albedo colour, an index of refraction and an emission colour.
  The kernel compares the tag with \<open>Diffuse\<close>, \<open>Specular\<close> and \<open>Refractive\<close>;
  \<open>OtherType n\<close> stands for any other value the tag's storage can hold.
\<close>

datatype MaterialType = Diffuse | Specular | Refractive | OtherType nat

record Material =
  mtype :: MaterialType
  emissive :: bool
  albedo :: Vec3fa
  ior :: f32
  emission :: Vec3fa

record SceneRef =
  matIDs :: "32 word list"
  materials :: "Material list"
  imageWidth :: f32
  imageHeight :: f32
  fovRadians :: f32
  antiAliasScale :: f32
  maxPathLength :: "32 word"
  rouletteStartDepth :: "32 word"

text \<open>
  The kernels call functions whose definitions are in headers that are not among the
  sources (\<open>Render.hpp\<close>, \<open>BxDF.hpp\<close>, \<open>CompactBvh.hpp\<close>, \<open>sincos.hpp\<close>) and
  two hardware random-number instructions. They are parameters of the model. A function
  that takes an argument by reference returns its new value; \<open>intersect\<close> stands for
  \<open>bvh.intersect(ray, primLookup)\<close> on the scene's BVH and returns the primitive hit, if
  any, with the ray as the traversal leaves it. \<open>urand_f32 n\<close> and \<open>f32v2grand n\<close> are
  what the \<open>n\<close>-th draw from the worker's generator returns. \<open>indeterminate i\<close> is what
  the \<open>throughput\<close> member, which the constructor \<open>HitRecord(origin, dir)\<close> does not
  initialise, holds in the temporary built for ray \<open>i\<close>.
\<close>

record 'prim Collaborators =
  offsetRay :: "Ray \<Rightarrow> Vec3fa \<Rightarrow> Ray"
  intersect :: "Ray \<Rightarrow> 'prim option \<times> Ray"
  updateHit :: "'prim \<Rightarrow> HitRecord \<Rightarrow> HitRecord"
  sampleDiffuse :: "Vec3fa \<Rightarrow> f32 \<Rightarrow> f32 \<Rightarrow> Vec3fa"
  reflect :: "Vec3fa \<Rightarrow> Vec3fa \<Rightarrow> Vec3fa"
  dielectric :: "Ray \<Rightarrow> Vec3fa \<Rightarrow> f32 \<Rightarrow> f32 \<Rightarrow> Vec3fa \<times> bool"
  evaluateRoulette :: "f32 \<Rightarrow> Vec3fa \<Rightarrow> bool"
  pixelToRayDir :: "f32 \<Rightarrow> f32 \<Rightarrow> f32 \<Rightarrow> f32 \<Rightarrow> f32 \<Rightarrow> Vec3fa"
  sincos :: "f32 \<Rightarrow> f32 \<times> f32"
  traceShadowRay :: "f32 \<Rightarrow> Vec3fa \<Rightarrow> TraceResult \<Rightarrow> TraceResult"
  urand_f32 :: "nat \<Rightarrow> f32"
  f32v2grand :: "nat \<Rightarrow> f32 \<times> f32"
  indeterminate :: "nat \<Rightarrow> Vec3fa"

text \<open>A worker's view of the ray stream and the number of draws its generator has made.\<close>

record Worker =
  rays :: "TraceResult list"
  rngCount :: nat

section \<open>The strided loop of the kernels\<close>

text \<open>
  Every kernel runs \<open>for (r = workerID; r < size; r += numWorkers)\<close>. The loop does not
  return when \<open>numWorkers\<close> is 0 and \<open>workerID < size\<close>, so its result is an option.
  Indices are natural numbers: the wrap-around of the 32-bit counter is not modelled.
\<close>

partial_function (option) stridedFor ::
  "nat \<Rightarrow> nat \<Rightarrow> (nat \<Rightarrow> 's \<Rightarrow> 's) \<Rightarrow> nat \<Rightarrow> 's \<Rightarrow> 's option" where
  "stridedFor numWorkers len body i st =
     (if i < len then stridedFor numWorkers len body (i + numWorkers) (body i st)
      else Some st)"

text \<open>
  The indices \<open>i, i + W, i + 2 W, \<dots>\<close> below \<open>N\<close>, as the specification words the
  partition of worker \<open>i\<close>.
\<close>

definition stridedIndices :: "nat \<Rightarrow> nat \<Rightarrow> nat \<Rightarrow> nat list" where
  "stridedIndices W N i = filter (\<lambda>k. (k - i) mod W = 0) [i..<N]"

text \<open>
  A MultiVertex runs \<open>compute(workerID)\<close> once for each worker. The workers are run one
  after the other here, in the order of their identifiers.
\<close>

fun runWorkers :: "(nat \<Rightarrow> 's \<Rightarrow> 's option) \<Rightarrow> nat list \<Rightarrow> 's \<Rightarrow> 's option" where
  "runWorkers compute [] st = Some st"
| "runWorkers compute (w # ws) st =
     (case compute w st of None \<Rightarrow> None | Some st' \<Rightarrow> runWorkers compute ws st')"

section \<open>The C library\<close>

text \<open>
  \<open>acosf\<close> and \<open>atan2\<close> are functions of the C library, taken at single precision.
  They are parameters of the model; since the model has both zeros, \<open>atan2\<close> can tell
  them apart as the library does.
\<close>

record Libm =
  acosf :: "f32 \<Rightarrow> f32"
  atan2 :: "f32 \<Rightarrow> f32 \<Rightarrow> f32"

section \<open>TraceCodelets.cpp\<close>

definition hw_uniform_0_1 :: "('prim, 'e) Collaborators_scheme \<Rightarrow> nat \<Rightarrow> f32" where
  "hw_uniform_0_1 env n = fadd (urand_f32 env n) (Fin (1 / 2))"

subsection \<open>sampleCameraRays\<close>

definition cameraRayBody ::
  "('prim, 'e) Collaborators_scheme \<Rightarrow> f32 \<Rightarrow> f32 \<Rightarrow> f32 \<times> f32 \<Rightarrow> f32 \<Rightarrow> nat \<Rightarrow> Worker \<Rightarrow> Worker"
  where
  "cameraRayBody env width height antiAliasScale' fovTanTheta i w =
     (let res = rays w ! i;
          g = f32v2grand env (rngCount w);
          row = fadd (u (p res)) (fmul (fst antiAliasScale') (fst g));
          col = fadd (v (p res)) (fmul (snd antiAliasScale') (snd g));
          rayDir = pixelToRayDir env col row width height fovTanTheta
      in w\<lparr>rays := (rays w)[i := res\<lparr>h := HitRecord_ctor (vec1 (Fin 0)) rayDir
                                              (indeterminate env i)\<rparr>],
            rngCount := rngCount w + 1\<rparr>)"

definition sampleCameraRays ::
  "('prim, 'e) Collaborators_scheme \<Rightarrow> nat \<Rightarrow> nat \<Rightarrow> f32 \<Rightarrow> f32 \<Rightarrow> f32 \<times> f32 \<Rightarrow> f32 \<Rightarrow>
   Worker \<Rightarrow> Worker option" where
  "sampleCameraRays env numWorkers workerID width height antiAliasScale' fov w =
     (let sc' = sincos env (fdiv fov (Fin 2));
          fovTanTheta = fdiv (fst sc') (snd sc')
      in stridedFor numWorkers (length (rays w))
           (cameraRayBody env width height antiAliasScale' fovTanTheta) workerID w)"

subsection \<open>PathTrace\<close>

record PathState =
  result :: TraceResult
  color :: Vec3fa
  rng :: nat

datatype LoopCtl = Continue | Break

text \<open>The branch on the material's tag, lines 221 to 244.\<close>

definition shade ::
  "('prim, 'e) Collaborators_scheme \<Rightarrow> Material \<Rightarrow> TraceResult \<Rightarrow> nat \<Rightarrow> TraceResult \<times> nat"
  where
  "shade env material res n =
     (let hit = h res in
      if mtype material = Diffuse then
        (let u1 = hw_uniform_0_1 env n;
             u2 = hw_uniform_0_1 env (n + 1)
         in (res\<lparr>h := hit\<lparr>r := (r hit)\<lparr>direction := sampleDiffuse env (normal hit) u1 u2\<rparr>,
                             throughput := vmul (throughput hit) (albedo material)\<rparr>\<rparr>,
             n + 2))
      else if mtype material = Specular then
        (res\<lparr>h := hit\<lparr>r := (r hit)\<lparr>direction := reflect env (direction (r hit)) (normal hit)\<rparr>,
                         throughput := vmul (throughput hit) (albedo material)\<rparr>\<rparr>,
         n)
      else if mtype material = Refractive then
        (let u1 = hw_uniform_0_1 env n;
             dr = dielectric env (r hit) (normal hit) (ior material) u1;
             hit' = hit\<lparr>r := (r hit)\<lparr>direction := fst dr\<rparr>\<rparr>
         in (res\<lparr>h := (if snd dr
                         then hit'\<lparr>throughput := vmul (throughput hit') (albedo material)\<rparr>
                         else hit')\<rparr>,
             n + 1))
      else
        (res\<lparr>rgb := vmul (rgb res) (vec1 NaN), h := hit\<lparr>flags := flags hit OR ERROR\<rparr>\<rparr>, n))"

text \<open>The random stopping at the end of an iteration, lines 250 to 254.\<close>

definition roulette ::
  "('prim, 'e) Collaborators_scheme \<Rightarrow> SceneRef \<Rightarrow> nat \<Rightarrow> PathState \<Rightarrow> LoopCtl \<times> PathState"
  where
  "roulette env scene i st =
     (if unat (rouletteStartDepth scene) < i then
        (let u1 = hw_uniform_0_1 env (rng st);
             st' = st\<lparr>rng := rng st + 1\<rparr>
         in if evaluateRoulette env u1 (throughput (h (result st))) then (Break, st')
            else (Continue, st'))
      else (Continue, st))"

text \<open>The ray handed to the BVH, lines 207 to 210, and the material of a hit, line 215.\<close>

definition rayForBounce :: "('prim, 'e) Collaborators_scheme \<Rightarrow> HitRecord \<Rightarrow> Ray" where
  "rayForBounce env hit = (offsetRay env (r hit) (normal hit))\<lparr>tMin := Fin 0, tMax := PosInf\<rparr>"

definition materialOf :: "SceneRef \<Rightarrow> HitRecord \<Rightarrow> Material" where
  "materialOf scene hit = materials scene ! unat (matIDs scene ! unat (geomID hit))"

text \<open>One iteration of the path trace loop, lines 207 to 254.\<close>

definition bounce ::
  "('prim, 'e) Collaborators_scheme \<Rightarrow> SceneRef \<Rightarrow> nat \<Rightarrow> PathState \<Rightarrow> LoopCtl \<times> PathState"
  where
  "bounce env scene i st =
     (let res = result st;
          hit = h res;
          found = intersect env (rayForBounce env hit);
          hit1 = hit\<lparr>r := snd found\<rparr>
      in case fst found of
           None \<Rightarrow>
             (Break, st\<lparr>result := res\<lparr>h := hit1\<lparr>flags := flags hit1 OR ESCAPED\<rparr>\<rparr>\<rparr>)
         | Some prim \<Rightarrow>
             (let hit2 = updateHit env prim hit1;
                  material = materialOf scene hit2;
                  color1 = (if emissive material
                            then vadd (color st) (vmul (throughput hit2) (emission material))
                            else color st);
                  shaded = shade env material (res\<lparr>h := hit2\<rparr>) (rng st)
              in roulette env scene i
                   \<lparr>result = fst shaded, color = color1, rng = snd shaded\<rparr>))"

text \<open>
  \<open>for (i = 0; i < maxPathLength; ++i)\<close>: \<open>bounceLoop env scene k i st\<close> runs the
  iterations \<open>i, \<dots>, i + k - 1\<close> until one of them breaks.
\<close>

fun bounceLoop ::
  "('prim, 'e) Collaborators_scheme \<Rightarrow> SceneRef \<Rightarrow> nat \<Rightarrow> nat \<Rightarrow> PathState \<Rightarrow> PathState" where
  "bounceLoop env scene 0 i st = st"
| "bounceLoop env scene (Suc k) i st =
     (case bounce env scene i st of
        (Break, st') \<Rightarrow> st'
      | (Continue, st') \<Rightarrow> bounceLoop env scene k (Suc i) st')"

text \<open>The body of the loop over rays, lines 201 to 257.\<close>

definition pathTraceRay ::
  "('prim, 'e) Collaborators_scheme \<Rightarrow> SceneRef \<Rightarrow> nat \<Rightarrow> Worker \<Rightarrow> Worker" where
  "pathTraceRay env scene i w =
     (let res = rays w ! i;
          st0 = \<lparr>result = res\<lparr>h := (h res)\<lparr>throughput := vec3 (Fin 1) (Fin 1) (Fin 1)\<rparr>\<rparr>,
                 color = vec3 (Fin 0) (Fin 0) (Fin 0), rng = rngCount w\<rparr>;
          st1 = bounceLoop env scene (unat (maxPathLength scene)) 0 st0;
          res' = (result st1)\<lparr>rgb := vadd (rgb (result st1)) (color st1)\<rparr>
      in w\<lparr>rays := (rays w)[i := res'], rngCount := rng st1\<rparr>)"

fun sampleLoop ::
  "('prim, 'e) Collaborators_scheme \<Rightarrow> SceneRef \<Rightarrow> nat \<Rightarrow> nat \<Rightarrow> nat \<Rightarrow> Worker \<Rightarrow> Worker option"
  where
  "sampleLoop env scene numWorkers workerID 0 w = Some w"
| "sampleLoop env scene numWorkers workerID (Suc k) w =
     (case sampleCameraRays env numWorkers workerID (imageWidth scene) (imageHeight scene)
             (antiAliasScale scene, antiAliasScale scene) (fovRadians scene) w of
        None \<Rightarrow> None
      | Some w1 \<Rightarrow>
          (case stridedFor numWorkers (length (rays w1)) (pathTraceRay env scene) workerID w1 of
             None \<Rightarrow> None
           | Some w2 \<Rightarrow> sampleLoop env scene numWorkers workerID k w2))"

definition PathTrace_compute ::
  "('prim, 'e) Collaborators_scheme \<Rightarrow> SceneRef \<Rightarrow> nat \<Rightarrow> 32 word \<Rightarrow> nat \<Rightarrow> Worker \<Rightarrow> Worker option"
  where
  "PathTrace_compute env scene numWorkers vertexSampleCount workerID w =
     sampleLoop env scene numWorkers workerID (unat vertexSampleCount) w"

subsection \<open>ShadowTrace\<close>


subsection \<open>PreProcessEscapedRays\<close>

definition wrapPhi :: "f32 \<Rightarrow> f32" where
  "wrapPhi phi = (if flt phi (Fin 0) then fadd phi TwoPi
                  else if fgt phi TwoPi then fsub phi TwoPi else phi)"

definition preProcessBody ::
  "Libm \<Rightarrow> TraceResult list \<Rightarrow> f32 \<Rightarrow> nat \<Rightarrow> f32 list \<times> f32 list \<Rightarrow> f32 list \<times> f32 list" where
  "preProcessBody libm wrappedResults azimuthRotation i uv =
     (let hit = h (wrappedResults ! i) in
      if flags hit AND ESCAPED \<noteq> 0 then
        (let dir = direction (r hit);
             theta = acosf libm (y dir);
             phi = wrapPhi (fadd (atan2 libm (z dir) (x dir)) azimuthRotation)
         in ((fst uv)[i := fmul theta InvPi], (snd uv)[i := fmul phi Inv2Pi]))
      else ((fst uv)[i := Fin 0], (snd uv)[i := Fin 0]))"

definition PreProcessEscapedRays_compute ::
  "Libm \<Rightarrow> nat \<Rightarrow> TraceResult list \<Rightarrow> f32 \<Rightarrow> nat \<Rightarrow> f32 list \<times> f32 list \<Rightarrow> (f32 list \<times> f32 list) option"
  where
  "PreProcessEscapedRays_compute libm workerCount wrappedResults azimuthRotation workerId uv =
     stridedFor workerCount (length wrappedResults)
       (preProcessBody libm wrappedResults azimuthRotation) workerId uv"

subsection \<open>PostProcessEscapedRays\<close>

definition postProcessBody :: "f32 list list \<Rightarrow> nat \<Rightarrow> TraceResult list \<Rightarrow> TraceResult list" where
  "postProcessBody bgr i wrappedResults =
     (let res = wrappedResults ! i;
          hit = h res
      in if flags hit AND ESCAPED \<noteq> 0 then
           (let s = bgr ! i
            in wrappedResults[i := res\<lparr>rgb := vadd (rgb res)
                 (vmul (throughput hit) (vec3 (s ! 2) (s ! 1) (s ! 0)))\<rparr>])
         else wrappedResults)"

definition PostProcessEscapedRays_compute ::
  "nat \<Rightarrow> f32 list list \<Rightarrow> nat \<Rightarrow> TraceResult list \<Rightarrow> TraceResult list option" where
  "PostProcessEscapedRays_compute workerCount bgr workerId wrappedResults =
     stridedFor workerCount (length wrappedResults) (postProcessBody bgr) workerId
       wrappedResults"

subsection \<open>The vertices, all workers\<close>

definition PreProcessEscapedRays_vertex ::
  "Libm \<Rightarrow> nat \<Rightarrow> TraceResult list \<Rightarrow> f32 \<Rightarrow> f32 list \<times> f32 list \<Rightarrow> (f32 list \<times> f32 list) option"
  where
  "PreProcessEscapedRays_vertex libm workerCount wrappedResults azimuthRotation uv =
     runWorkers (PreProcessEscapedRays_compute libm workerCount wrappedResults azimuthRotation)
       [0..<workerCount] uv"

definition PostProcessEscapedRays_vertex ::
  "nat \<Rightarrow> f32 list list \<Rightarrow> TraceResult list \<Rightarrow> TraceResult list option" where
  "PostProcessEscapedRays_vertex workerCount bgr wrappedResults =
     runWorkers (PostProcessEscapedRays_compute workerCount bgr) [0..<workerCount]
       wrappedResults"

section \<open>Auxiliary definitions for the statements\<close>

text \<open>What lines 336 to 353 store at index \<open>k\<close> of the two outputs.\<close>

definition entryUV :: "Libm \<Rightarrow> TraceResult list \<Rightarrow> f32 \<Rightarrow> nat \<Rightarrow> f32 \<times> f32" where
  "entryUV libm rs az k = (if flags (h (rs ! k)) AND ESCAPED \<noteq> 0
      then (fmul (acosf libm (y (direction (r (h (rs ! k)))))) InvPi,
            fmul (wrapPhi (fadd (atan2 libm (z (direction (r (h (rs ! k))))) (x (direction (r (h (rs ! k)))))) az))
              Inv2Pi)
      else (Fin 0, Fin 0))"

text \<open>
  An escaped ray with direction \<open>d\<close>, as an input for the escaped-ray vertices, and a
  library whose \<open>acosf\<close> returns \<open>a\<close> and whose \<open>atan2\<close> returns \<open>t\<close>.
\<close>

definition fixedLibm :: "f32 \<Rightarrow> f32 \<Rightarrow> Libm" where
  "fixedLibm a t = \<lparr>acosf = (\<lambda>d. a), atan2 = (\<lambda>d e. t)\<rparr>"


definition escapedTowards :: "Vec3fa \<Rightarrow> TraceResult" where
  "escapedTowards d = \<lparr>rgb = vec1 (Fin 0), p = \<lparr>u = Fin 0, v = Fin 0\<rparr>,
      h = (HitRecord_ctor (vec1 (Fin 0)) d (vec1 (Fin 1)))\<lparr>flags := ESCAPED\<rparr>\<rparr>"

text \<open>
  Inputs for the path tracer: collaborators whose BVH query returns \<open>found\<close> and whose
  roulette answers \<open>stop\<close>; a scene with one material of tag \<open>tag\<close> and albedo
  \<open>1/2\<close>; a path at its start.
\<close>

definition fixedEnv :: "nat option \<Rightarrow> bool \<Rightarrow> nat Collaborators" where
  "fixedEnv found stop =
     \<lparr>offsetRay = (\<lambda>ray n. ray),
      intersect = (\<lambda>ray. (found, ray)),
      updateHit = (\<lambda>prim hit. hit\<lparr>primID := of_nat prim, geomID := 0\<rparr>),
      sampleDiffuse = (\<lambda>n a b. n),
      reflect = (\<lambda>d n. d),
      dielectric = (\<lambda>ray n i a. (direction ray, True)),
      evaluateRoulette = (\<lambda>a t. stop),
      pixelToRayDir = (\<lambda>col row width height t. vec3 (Fin 0) (Fin 0) (Fin 1)),
      sincos = (\<lambda>a. (Fin 0, Fin 1)),
      traceShadowRay = (\<lambda>a l res. res),
      urand_f32 = (\<lambda>n. Fin 0),
      f32v2grand = (\<lambda>n. (Fin 0, Fin 0)),
      indeterminate = (\<lambda>i. vec1 NaN)\<rparr>"

definition oneMaterialScene :: "MaterialType \<Rightarrow> 32 word \<Rightarrow> 32 word \<Rightarrow> SceneRef" where
  "oneMaterialScene tag pathLength startDepth =
     \<lparr>matIDs = [0],
      materials = [\<lparr>mtype = tag, emissive = False, albedo = vec1 (Fin (1 / 2)), ior = Fin (3 / 2),
                    emission = vec1 (Fin 0)\<rparr>],
      imageWidth = Fin 1, imageHeight = Fin 1, fovRadians = Fin 1, antiAliasScale = Fin 0,
      maxPathLength = pathLength, rouletteStartDepth = startDepth\<rparr>"

definition freshResult :: TraceResult where
  "freshResult = \<lparr>rgb = vec1 (Fin 0), p = \<lparr>u = Fin 0, v = Fin 0\<rparr>,
      h = HitRecord_ctor (vec1 (Fin 0)) (vec3 (Fin 0) (Fin 0) (Fin 1)) (vec1 (Fin 1))\<rparr>"

definition freshPath :: PathState where
  "freshPath = \<lparr>result = freshResult, color = vec1 (Fin 0), rng = 0\<rparr>"

text \<open>
  \<open>noNaN w\<close>: no component of \<open>w\<close> is NaN. \<open>noneBelow a b\<close>: no component of
  \<open>b\<close> is less than the same component of \<open>a\<close>.
\<close>

definition noNaN :: "Vec3fa \<Rightarrow> bool" where
  "noNaN w = (x w \<noteq> NaN \<and> y w \<noteq> NaN \<and> z w \<noteq> NaN)"

definition noneBelow :: "Vec3fa \<Rightarrow> Vec3fa \<Rightarrow> bool" where
  "noneBelow a b = (\<not> flt (x b) (x a) \<and> \<not> flt (y b) (y a) \<and> \<not> flt (z b) (z a))"

section \<open>Rounding\<close>

lemma roundEven_of_int: "roundEven (of_int n) = n"
  by (simp add: roundEven_def)

lemma roundEven_bounds: "of_int (roundEven t) \<le> t + 1 / 2 \<and> t - 1 / 2 \<le> of_int (roundEven t)"
  unfolding roundEven_def by (auto; linarith)



lemma binade:
  assumes "t \<noteq> 0"
  shows "2 powr of_int \<lfloor>log 2 \<bar>t\<bar>\<rfloor> \<le> \<bar>t\<bar> \<and> \<bar>t\<bar> < 2 powr of_int (\<lfloor>log 2 \<bar>t\<bar>\<rfloor> + 1)"
proof -
  have pos: "0 < \<bar>t\<bar>" using assms by simp
  have a: "of_int \<lfloor>log 2 \<bar>t\<bar>\<rfloor> \<le> log 2 \<bar>t\<bar>" by simp
  have b: "log 2 \<bar>t\<bar> < of_int (\<lfloor>log 2 \<bar>t\<bar>\<rfloor> + 1)" by linarith
  have "2 powr of_int \<lfloor>log 2 \<bar>t\<bar>\<rfloor> \<le> 2 powr log 2 \<bar>t\<bar>"
    using a by (simp only: powr_le_cancel_iff) 
  moreover have "2 powr log 2 \<bar>t\<bar> < 2 powr of_int (\<lfloor>log 2 \<bar>t\<bar>\<rfloor> + 1)"
    using b by (simp only: powr_less_cancel_iff) 
  moreover have "2 powr log 2 \<bar>t\<bar> = \<bar>t\<bar>" using pos by simp
  ultimately show ?thesis by simp
qed




text \<open>
  A number \<open>m 2^k\<close> with \<open>|m| < 2^24\<close> and \<open>-149 \<le> k \<le> 104\<close> is a binary32
  number: rounding leaves it as it is.
\<close>

lemma roundF32_exact:
  assumes r: "t = of_int m * 2 powr of_int k" and m: "m \<noteq> 0" "\<bar>m\<bar> < 2 ^ 24"
    and k: "- 149 \<le> k" "k \<le> 104"
  shows "roundF32 t = Fin t"
proof -
  have t0: "t \<noteq> 0" using r m by simp
  have abs: "\<bar>t\<bar> = of_int \<bar>m\<bar> * 2 powr of_int k" using r by (simp add: abs_mult)
  have "of_int \<bar>m\<bar> < (2::real) ^ 24" using m(2) by (metis of_int_less_numeral_power_cancel_iff)
  then have "\<bar>t\<bar> < 2 ^ 24 * 2 powr of_int k" unfolding abs by simp
  also have "\<dots> = 2 powr of_int (k + 24)" by (simp add: powr_add)
  finally have up: "\<bar>t\<bar> < 2 powr of_int (k + 24)" .
  have "2 powr of_int \<lfloor>log 2 \<bar>t\<bar>\<rfloor> < (2::real) powr of_int (k + 24)"
    using binade[OF t0] up by linarith
  then have "\<lfloor>log 2 \<bar>t\<bar>\<rfloor> < k + 24" by (simp only: powr_less_cancel_iff of_int_less_iff) 
  then have le: "ulpExp t \<le> k" using k(1) by (simp add: ulpExp_def)
  define j where "j = nat (k - ulpExp t)"
  have kj: "k = ulpExp t + int j" using le by (simp add: j_def)
  define q :: real where "q = 2 powr of_int (ulpExp t)"
  have qpos: "0 < q" by (simp add: q_def)
  have "(2::real) powr of_int (ulpExp t + int j) = q * 2 ^ j"
    by (simp add: powr_add powr_realpow q_def)
  then have pk: "(2::real) powr of_int k = q * 2 ^ j" using kj by simp
  have "t / q = of_int m * (q * 2 ^ j) / q" unfolding r pk by simp
  also have "\<dots> = of_int (m * 2 ^ j)" using qpos by simp
  finally have quot: "t / 2 powr of_int (ulpExp t) = of_int (m * 2 ^ j)"
    unfolding q_def .
  have re: "roundEven (t / 2 powr of_int (ulpExp t)) = m * 2 ^ j"
    unfolding quot by (rule roundEven_of_int)
  have nz: "m * 2 ^ j \<noteq> 0" using m(1) by simp
  have recon: "real_of_int (m * 2 ^ j) * 2 powr of_int (ulpExp t) = t"
  proof -
    have "t / q * q = t" using qpos by simp
    then show ?thesis using quot by (simp only: q_def)
  qed
  have "k + 24 \<le> 128" using k(2) by simp
  then have "real_of_int (k + 24) \<le> real_of_int 128" by (simp only: of_int_le_iff)
  moreover have two: "(1::real) < 2" by simp
  ultimately have "2 powr of_int (k + 24) \<le> (2::real) powr of_int (128::int)"
    by (simp only: powr_le_cancel_iff[OF two])
  also have "\<dots> = (2::real) ^ 128"
    using powr_realpow[of "2::real" 128] by simp
  finally have lt128: "\<bar>t\<bar> < 2 ^ 128" using up by linarith
  then have small0: "\<not> 2 ^ 128 \<le> \<bar>t\<bar>" by (simp only: not_le)
  from lt128 have small: "\<not> 2 ^ 128 \<le> \<bar>real_of_int (m * 2 ^ j) * 2 powr of_int (ulpExp t)\<bar>"
    by (simp only: recon not_le)
  show ?thesis
    unfolding roundF32_def Let_def re by (simp only: t0 nz small0 recon if_False)
qed

lemma roundF32_int:
  assumes "m \<noteq> 0" "\<bar>m\<bar> < 2 ^ 24"
  shows "roundF32 (of_int m) = Fin (of_int m)"
  by (rule roundF32_exact[where m = m and k = 0]) (use assms in simp_all)

lemma roundF32_dyadic:
  assumes "m \<noteq> 0" "\<bar>m\<bar> < 2 ^ 24" "j \<le> 149"
  shows "roundF32 (of_int m / 2 ^ j) = Fin (of_int m / 2 ^ j)"
proof (rule roundF32_exact[where m = m and k = "- int j"])
  show "of_int m / 2 ^ j = of_int m * (2::real) powr of_int (- int j)"
    by (simp add: powr_minus powr_realpow divide_inverse)
qed (use assms in simp_all)







lemma roundF32_numeral:
  assumes "(numeral n :: int) < 2 ^ 24"
  shows "roundF32 (numeral n) = Fin (numeral n)"
  using roundF32_int[of "numeral n"] assms by simp

lemma roundF32_zero: "roundF32 0 = Fin 0"
  by (simp add: roundF32_def)

lemma roundF32_one: "roundF32 1 = Fin 1"
  using roundF32_int[of 1] by simp

lemma roundF32_half: "roundF32 (1 / 2) = Fin (1 / 2)"
  using roundF32_dyadic[of 1 1] by simp

lemma roundF32_quarter: "roundF32 (1 / 4) = Fin (1 / 4)"
  using roundF32_dyadic[of 1 2] by simp

lemma fmul_Fin:
  "fmul (Fin a) (Fin b) = (if a * b = 0 then zeroOf ((a < 0) \<noteq> (b < 0)) else roundF32 (a * b))"
  by (simp add: fmul_def)

section \<open>Vec3fa and Ray\<close>

lemma maxi_in_range: "maxi w = 0 \<or> maxi w = 1 \<or> maxi w = 2"
  by (simp add: maxi_def)

lemma maxc_defined: "\<exists>a. maxc w = Some a"
  using maxi_in_range[of w] by (auto simp: maxc_def c_def)

lemma Ray_ctor_direction: "direction (Ray_ctor a d) = d"
  by (simp add: Ray_ctor_def)

text \<open>
  C10. \<open>maxi\<close> is documented to return the index of the maximum component and
  \<open>maxc\<close> the maximum component. On the vector \<open>(1, 2, 3)\<close> the code returns index
  0 and the component 1, although component 2 holds the greater value 3: the comparisons
  select the smallest component.
\<close>

theorem maxi_selects_smallest_of_1_2_3:
  "maxi (vec3 (Fin 1) (Fin 2) (Fin 3)) = 0
   \<and> maxc (vec3 (Fin 1) (Fin 2) (Fin 3)) = Some (Fin 1)
   \<and> c (vec3 (Fin 1) (Fin 2) (Fin 3)) 2 = Some (Fin 3)
   \<and> flt (Fin 1) (Fin 3)"
  by (simp add: maxi_def maxc_def c_def vec3_def)

text \<open>
  C3. The comment in the escaped-ray kernel says that a ray's direction is normalised in
  the Ray constructor. The constructor stores the direction it is given: built from the
  direction \<open>(2, 0, 0)\<close>, the ray holds \<open>(2, 0, 0)\<close>, of squared length 4.
\<close>

theorem Ray_ctor_stores_direction_2_0_0:
  "direction (Ray_ctor (vec1 (Fin 0)) (vec3 (Fin 2) (Fin 0) (Fin 0))) = vec3 (Fin 2) (Fin 0) (Fin 0)
   \<and> squaredNorm (direction (Ray_ctor (vec1 (Fin 0)) (vec3 (Fin 2) (Fin 0) (Fin 0)))) = Fin 4"
  by (simp add: Ray_ctor_def squaredNorm_def vec3_def fmul_Fin zeroOf_def roundF32_numeral)

section \<open>The strided partition\<close>

lemma stridedIndices_empty: "N \<le> i \<Longrightarrow> stridedIndices W N i = []"
  by (simp add: stridedIndices_def)

lemma stridedIndices_step:
  assumes "0 < W" "i < N"
  shows "stridedIndices W N i = i # stridedIndices W N (i + W)"
proof -
  have head: "[i..<N] = i # [Suc i..<N]"
    using assms(2) by (simp add: upt_conv_Cons)
  have tail: "filter (\<lambda>k. (k - i) mod W = 0) [Suc i..<N]
            = filter (\<lambda>k. (k - (i + W)) mod W = 0) [i + W..<N]"
  proof (cases "i + W \<le> N")
    case True
    have split: "[Suc i..<N] = [Suc i..<i + W] @ [i + W..<N]"
      using True assms(1) upt_add_eq_append[of "Suc i" "i + W" "N - (i + W)"] by simp
    have low: "filter (\<lambda>k. (k - i) mod W = 0) [Suc i..<i + W] = []"
      by (auto simp: filter_empty_conv)
    have high: "filter (\<lambda>k. (k - i) mod W = 0) [i + W..<N]
              = filter (\<lambda>k. (k - (i + W)) mod W = 0) [i + W..<N]"
    proof (rule filter_cong[OF refl])
      fix k assume "k \<in> set [i + W..<N]"
      then have "k - i = (k - (i + W)) + W" by auto
      then show "((k - i) mod W = 0) = ((k - (i + W)) mod W = 0)" by simp
    qed
    show ?thesis by (simp only: split filter_append low high append_Nil)
  next
    case False
    then have "filter (\<lambda>k. (k - i) mod W = 0) [Suc i..<N] = []"
      by (auto simp: filter_empty_conv)
    with False show ?thesis by simp
  qed
  show ?thesis
    unfolding stridedIndices_def by (simp only: head filter.simps tail) simp
qed

lemma stridedFor_fold:
  assumes "0 < W"
  shows "stridedFor W N body i st = Some (fold body (stridedIndices W N i) st)"
proof (induction "N - i" arbitrary: i st rule: less_induct)
  case less
  show ?case
  proof (cases "i < N")
    case True
    then have "N - (i + W) < N - i" using assms by arith
    from less[OF this] True assms show ?thesis
      by (subst stridedFor.simps) (simp add: stridedIndices_step)
  next
    case False
    then show ?thesis
      by (subst stridedFor.simps) (simp add: stridedIndices_empty)
  qed
qed

lemma distinct_stridedIndices: "distinct (stridedIndices W N i)"
  by (simp add: stridedIndices_def)

lemma stride_member_iff:
  assumes "0 < (W::nat)" "i < W"
  shows "(i \<le> k \<and> (k - i) mod W = 0) \<longleftrightarrow> k mod W = i"
proof
  assume a: "i \<le> k \<and> (k - i) mod W = 0"
  then have "k = (k - i) + i" by simp
  then have "k mod W = ((k - i) mod W + i mod W) mod W"
    by (metis mod_add_eq)
  with a assms show "k mod W = i" by simp
next
  assume b: "k mod W = i"
  then have le: "i \<le> k" by (metis mod_less_eq_dividend)
  have "k - k mod W = W * (k div W)"
    by (simp add: minus_mod_eq_mult_div)
  with b le show "i \<le> k \<and> (k - i) mod W = 0" by simp
qed

lemma in_stridedIndices:
  "k \<in> set (stridedIndices W N i) \<longleftrightarrow> i \<le> k \<and> k < N \<and> (k - i) mod W = 0"
  unfolding stridedIndices_def set_filter by simp

lemma in_stridedIndices_mod:
  assumes "0 < W" "i < W"
  shows "k \<in> set (stridedIndices W N i) \<longleftrightarrow> k < N \<and> k mod W = i"
proof -
  have "k \<in> set (stridedIndices W N i) \<longleftrightarrow> (i \<le> k \<and> (k - i) mod W = 0) \<and> k < N"
    unfolding in_stridedIndices by (simp only: conj_ac)
  also have "\<dots> \<longleftrightarrow> k mod W = i \<and> k < N"
    by (simp only: stride_member_iff[OF assms])
  finally show ?thesis by (simp only: conj_ac)
qed

lemma set_stridedIndices_mod:
  assumes "0 < W" "i < W"
  shows "set (stridedIndices W N i) = {k. k < N \<and> k mod W = i}"
  by (rule set_eqI) (simp only: in_stridedIndices_mod[OF assms] mem_Collect_eq)



lemma fold_entry:
  assumes step: "\<And>i st. i < N \<Longrightarrow> ok st \<Longrightarrow>
            ok (body i st) \<and> (\<forall>k. entry (body i st) k = (if k = i then g i (entry st i) else entry st k))"
    and "distinct is" "\<forall>i\<in>set is. i < N" "ok st"
  shows "ok (fold body is st) \<and>
         (\<forall>k. entry (fold body is st) k = (if k \<in> set is then g k (entry st k) else entry st k))"
  using assms(2-)
proof (induction "is" arbitrary: st)
  case Nil
  then show ?case by simp
next
  case (Cons i "is")
  from step[of i st] Cons.prems have s: "ok (body i st)"
    "\<And>k. entry (body i st) k = (if k = i then g i (entry st i) else entry st k)" by auto
  from Cons.IH[of "body i st"] Cons.prems s(1)
  have ih: "ok (fold body is (body i st))"
    "\<And>k. entry (fold body is (body i st)) k = (if k \<in> set is then g k (entry (body i st) k) else entry (body i st) k)"
    by auto
  show ?case using ih s Cons.prems by auto
qed

lemma runWorkers_fold:
  assumes comp: "\<And>w st. w \<in> set ws \<Longrightarrow> ok st \<Longrightarrow> compute w st = Some (fold body (idx w) st)"
    and pres: "\<And>w st. w \<in> set ws \<Longrightarrow> ok st \<Longrightarrow> ok (fold body (idx w) st)"
    and "ok st"
  shows "runWorkers compute ws st = Some (fold body (concat (map idx ws)) st)"
  using assms
proof (induction ws arbitrary: st)
  case Nil
  then show ?case by simp
next
  case (Cons w ws)
  have a: "compute w st = Some (fold body (idx w) st)" using Cons.prems by simp
  have b: "ok (fold body (idx w) st)" using Cons.prems by simp
  have "runWorkers compute ws (fold body (idx w) st)
        = Some (fold body (concat (map idx ws)) (fold body (idx w) st))"
    by (rule Cons.IH) (use Cons.prems b in auto)
  then show ?case using a by simp
qed

lemma distinct_all_strided:
  assumes "0 < W" "distinct ws" "\<forall>w\<in>set ws. w < W"
  shows "distinct (concat (map (stridedIndices W N) ws))
         \<and> set (concat (map (stridedIndices W N) ws)) = {k. k < N \<and> k mod W \<in> set ws}"
  using assms(2,3)
proof (induction ws)
  case Nil
  then show ?case by simp
next
  case (Cons w ws)
  then have ih: "distinct (concat (map (stridedIndices W N) ws))"
    "set (concat (map (stridedIndices W N) ws)) = {k. k < N \<and> k mod W \<in> set ws}" by auto
  have sw: "set (stridedIndices W N w) = {k. k < N \<and> k mod W = w}"
    using Cons.prems assms(1) by (simp add: set_stridedIndices_mod)
  have disj: "set (stridedIndices W N w) \<inter> set (concat (map (stridedIndices W N) ws)) = {}"
    using Cons.prems unfolding sw ih(2) by auto
  show ?case
    using ih sw disj distinct_stridedIndices[of W N w] by (auto simp del: set_concat)
qed

lemma all_strided_cover:
  assumes "0 < W"
  shows "distinct (concat (map (stridedIndices W N) [0..<W]))"
    and "set (concat (map (stridedIndices W N) [0..<W])) = {..<N}"
proof -
  have a: "distinct (concat (map (stridedIndices W N) [0..<W]))
         \<and> set (concat (map (stridedIndices W N) [0..<W])) = {k. k < N \<and> k mod W \<in> set [0..<W]}"
    by (rule distinct_all_strided[OF assms]) simp_all
  show "distinct (concat (map (stridedIndices W N) [0..<W]))" using a by (rule conjunct1)
  have "{k. k < N \<and> k mod W \<in> set [0..<W]} = {..<N}" using assms by auto
  with a show "set (concat (map (stridedIndices W N) [0..<W])) = {..<N}" by (simp only:)
qed

lemma vertex_fold:
  assumes W: "0 < W"
    and comp: "\<And>w st. ok st \<Longrightarrow> compute w st = stridedFor W N body w st"
    and step: "\<And>i st. i < N \<Longrightarrow> ok st \<Longrightarrow>
            ok (body i st) \<and> (\<forall>k. entry (body i st) k = (if k = i then g i (entry st i) else entry st k))"
    and ok: "ok st"
  shows "\<exists>st'. runWorkers compute [0..<W] st = Some st' \<and> ok st' \<and>
           (\<forall>k. entry st' k = (if k < N then g k (entry st k) else entry st k))"
proof -
  let ?idx = "stridedIndices W N"
  let ?all = "concat (map ?idx [0..<W])"
  have lt: "\<And>w. \<forall>i\<in>set (?idx w). i < N"
    by (simp add: in_stridedIndices)
  have pres: "\<And>w st. ok st \<Longrightarrow> ok (fold body (?idx w) st)"
    using fold_entry[where ok = ok and body = body and entry = entry and g = g and N = N,
        OF step distinct_stridedIndices lt] by blast
  have run: "runWorkers compute [0..<W] st = Some (fold body ?all st)"
  proof (rule runWorkers_fold[where ok = ok])
    show "\<And>w st. w \<in> set [0..<W] \<Longrightarrow> ok st \<Longrightarrow> compute w st = Some (fold body (?idx w) st)"
      by (simp only: comp stridedFor_fold[OF W])
    show "\<And>w st. w \<in> set [0..<W] \<Longrightarrow> ok st \<Longrightarrow> ok (fold body (?idx w) st)"
      by (rule pres)
    show "ok st" by (rule ok)
  qed
  have d: "distinct ?all" and sall: "set ?all = {..<N}"
    using all_strided_cover[OF W, of N] by blast+
  have ltall: "\<forall>i\<in>set ?all. i < N" unfolding sall by simp
  have fin: "ok (fold body ?all st) \<and>
         (\<forall>k. entry (fold body ?all st) k = (if k \<in> set ?all then g k (entry st k) else entry st k))"
    by (rule fold_entry[where ok = ok and N = N, OF step d ltall ok])
  show ?thesis
    using run fin unfolding sall by simp
qed



section \<open>PostProcessEscapedRays\<close>

lemma postProcessBody_entry:
  assumes "i < N" "length st = N"
  shows "length (postProcessBody bgr i st) = N \<and>
     (\<forall>k. postProcessBody bgr i st ! k =
        (if k = i then (if flags (h (st ! i)) AND ESCAPED \<noteq> 0
              then (st ! i)\<lparr>rgb := vadd (rgb (st ! i))
                 (vmul (throughput (h (st ! i))) (vec3 (bgr ! i ! 2) (bgr ! i ! 1) (bgr ! i ! 0)))\<rparr>
              else st ! i) else st ! k))"
  using assms by (simp add: postProcessBody_def Let_def nth_list_update)

text \<open>
  C4. Run by all \<open>W > 0\<close> workers, the post-process vertex returns, and every entry
  whose ESCAPED flag is set has the sample \<open>bgr[k]\<close>, read as \<open>(v[2], v[1], v[0])\<close>,
  multiplied componentwise by its throughput and added to its colour; every other entry
  is the entry it was.
\<close>

theorem PostProcess_adds_weighted_sample:
  assumes "0 < W" "length bgr = length rs" "\<forall>k<length rs. 3 \<le> length (bgr ! k)"
  shows "\<exists>rs'. PostProcessEscapedRays_vertex W bgr rs = Some rs' \<and> length rs' = length rs \<and>
     (\<forall>k<length rs. rs' ! k =
        (if flags (h (rs ! k)) AND ESCAPED \<noteq> 0
         then (rs ! k)\<lparr>rgb := vadd (rgb (rs ! k))
                 (vmul (throughput (h (rs ! k))) (vec3 (bgr ! k ! 2) (bgr ! k ! 1) (bgr ! k ! 0)))\<rparr>
         else rs ! k))"
proof -
  let ?g = "\<lambda>k e. if flags (h e) AND ESCAPED \<noteq> 0
         then e\<lparr>rgb := vadd (rgb e) (vmul (throughput (h e)) (vec3 (bgr ! k ! 2) (bgr ! k ! 1) (bgr ! k ! 0)))\<rparr>
         else e"
  have "\<exists>st'. runWorkers (PostProcessEscapedRays_compute W bgr) [0..<W] rs = Some st' \<and>
          length st' = length rs \<and>
          (\<forall>k. st' ! k = (if k < length rs then ?g k (rs ! k) else rs ! k))"
  proof (rule vertex_fold[where ok = "\<lambda>st. length st = length rs" and body = "postProcessBody bgr"
        and entry = "\<lambda>st k. st ! k" and g = ?g, OF assms(1)])
    show "\<And>w st. length st = length rs \<Longrightarrow>
        PostProcessEscapedRays_compute W bgr w st = stridedFor W (length rs) (postProcessBody bgr) w st"
      by (simp add: PostProcessEscapedRays_compute_def)
    show "\<And>i st. i < length rs \<Longrightarrow> length st = length rs \<Longrightarrow>
        length (postProcessBody bgr i st) = length rs \<and>
        (\<forall>k. postProcessBody bgr i st ! k = (if k = i then ?g i (st ! i) else st ! k))"
      using postProcessBody_entry by simp
    show "length rs = length rs" by simp
  qed
  then show ?thesis
    unfolding PostProcessEscapedRays_vertex_def by auto
qed

theorem PostProcess_adds_weighted_sample_witness:
  "PostProcessEscapedRays_vertex 2 [[Fin 1, Fin 2, Fin 3], [Fin 1, Fin 2, Fin 3]]
     [\<lparr>rgb = vec3 (Fin 1) (Fin 1) (Fin 1), p = \<lparr>u = Fin 0, v = Fin 0\<rparr>,
       h = (HitRecord_ctor (vec1 (Fin 0)) (vec3 (Fin 0) (Fin 0) (Fin 1)) (vec3 (Fin 2) (Fin 2) (Fin 2)))\<lparr>flags := ESCAPED\<rparr>\<rparr>,
      \<lparr>rgb = vec3 (Fin 1) (Fin 1) (Fin 1), p = \<lparr>u = Fin 0, v = Fin 1\<rparr>,
       h = HitRecord_ctor (vec1 (Fin 0)) (vec3 (Fin 0) (Fin 0) (Fin 1)) (vec3 (Fin 2) (Fin 2) (Fin 2))\<rparr>]
   = Some
     [\<lparr>rgb = vec3 (Fin 7) (Fin 5) (Fin 3), p = \<lparr>u = Fin 0, v = Fin 0\<rparr>,
       h = (HitRecord_ctor (vec1 (Fin 0)) (vec3 (Fin 0) (Fin 0) (Fin 1)) (vec3 (Fin 2) (Fin 2) (Fin 2)))\<lparr>flags := ESCAPED\<rparr>\<rparr>,
      \<lparr>rgb = vec3 (Fin 1) (Fin 1) (Fin 1), p = \<lparr>u = Fin 0, v = Fin 1\<rparr>,
       h = HitRecord_ctor (vec1 (Fin 0)) (vec3 (Fin 0) (Fin 0) (Fin 1)) (vec3 (Fin 2) (Fin 2) (Fin 2))\<rparr>]"
  (is "PostProcessEscapedRays_vertex 2 ?bgr ?rs = Some ?out")
proof -
  have pos: "0 < (2::nat)" by simp
  have len: "length ?bgr = length ?rs" by simp
  have three: "\<forall>k<length ?rs. 3 \<le> length (?bgr ! k)"
    by (simp add: less_Suc_eq)
  from PostProcess_adds_weighted_sample[OF pos len three]
  obtain rs' where run: "PostProcessEscapedRays_vertex 2 ?bgr ?rs = Some rs'"
    and l: "length rs' = length ?rs"
    and e: "\<forall>k<length ?rs. rs' ! k =
        (if flags (h (?rs ! k)) AND ESCAPED \<noteq> 0
         then (?rs ! k)\<lparr>rgb := vadd (rgb (?rs ! k))
                 (vmul (throughput (h (?rs ! k))) (vec3 (?bgr ! k ! 2) (?bgr ! k ! 1) (?bgr ! k ! 0)))\<rparr>
         else ?rs ! k)"
    by blast
  have e0: "rs' ! 0 = ?out ! 0"
    using e[rule_format, of 0]
    by (simp add: HitRecord_ctor_def ESCAPED_def vadd_def vmul_def vec3_def fmul_Fin
        roundF32_numeral)
  have e1: "rs' ! 1 = ?out ! 1"
    using e[rule_format, of 1]
    by (simp add: HitRecord_ctor_def ESCAPED_def vadd_def vmul_def vec3_def fmul_Fin
        roundF32_numeral)
  have "rs' = ?out"
    using l e0 e1 by (intro nth_equalityI) (auto simp: less_Suc_eq)
  with run show ?thesis by simp
qed

section \<open>PreProcessEscapedRays\<close>



lemma preProcessBody_entry:
  assumes "i < N" "length (fst st) = N \<and> length (snd st) = N"
  shows "(length (fst (preProcessBody libm rs az i st)) = N \<and> length (snd (preProcessBody libm rs az i st)) = N) \<and>
     (\<forall>k. (fst (preProcessBody libm rs az i st) ! k, snd (preProcessBody libm rs az i st) ! k) =
        (if k = i then (\<lambda>k e. entryUV libm rs az k) i (fst st ! i, snd st ! i) else (fst st ! k, snd st ! k)))"
  using assms by (simp add: preProcessBody_def entryUV_def Let_def nth_list_update)

lemma preProcess_vertex:
  assumes "0 < W" "length us = length rs" "length vs = length rs"
  shows "\<exists>us' vs'. PreProcessEscapedRays_vertex libm W rs az (us, vs) = Some (us', vs') \<and>
      length us' = length rs \<and> length vs' = length rs \<and>
      (\<forall>k<length rs. us' ! k = fst (entryUV libm rs az k) \<and> vs' ! k = snd (entryUV libm rs az k))"
proof -
  have "\<exists>st'. runWorkers (PreProcessEscapedRays_compute libm W rs az) [0..<W] (us, vs) = Some st' \<and>
          (length (fst st') = length rs \<and> length (snd st') = length rs) \<and>
          (\<forall>k. (fst st' ! k, snd st' ! k) =
             (if k < length rs then (\<lambda>k e. entryUV libm rs az k) k (fst (us, vs) ! k, snd (us, vs) ! k)
              else (fst (us, vs) ! k, snd (us, vs) ! k)))"
  proof (rule vertex_fold[where ok = "\<lambda>st. length (fst st) = length rs \<and> length (snd st) = length rs"
        and body = "preProcessBody libm rs az" and entry = "\<lambda>st k. (fst st ! k, snd st ! k)"
        and g = "\<lambda>k e. entryUV libm rs az k", OF assms(1)])
    show "\<And>w st. length (fst st) = length rs \<and> length (snd st) = length rs \<Longrightarrow>
        PreProcessEscapedRays_compute libm W rs az w st = stridedFor W (length rs) (preProcessBody libm rs az) w st"
      by (simp add: PreProcessEscapedRays_compute_def)
    show "\<And>i st. i < length rs \<Longrightarrow> length (fst st) = length rs \<and> length (snd st) = length rs \<Longrightarrow>
        (length (fst (preProcessBody libm rs az i st)) = length rs \<and> length (snd (preProcessBody libm rs az i st)) = length rs) \<and>
        (\<forall>k. (fst (preProcessBody libm rs az i st) ! k, snd (preProcessBody libm rs az i st) ! k) =
           (if k = i then (\<lambda>k e. entryUV libm rs az k) i (fst st ! i, snd st ! i) else (fst st ! k, snd st ! k)))"
      by (rule preProcessBody_entry)
    show "length (fst (us, vs)) = length rs \<and> length (snd (us, vs)) = length rs"
      using assms by simp
  qed
  then obtain st' where st': "runWorkers (PreProcessEscapedRays_compute libm W rs az) [0..<W] (us, vs) = Some st'"
     "length (fst st') = length rs" "length (snd st') = length rs"
     "\<And>k. k < length rs \<Longrightarrow> (fst st' ! k, snd st' ! k) = entryUV libm rs az k"
    by auto
  have "PreProcessEscapedRays_vertex libm W rs az (us, vs) = Some (fst st', snd st')"
    using st'(1) by (simp add: PreProcessEscapedRays_vertex_def)
  moreover have "\<forall>k<length rs. fst st' ! k = fst (entryUV libm rs az k) \<and> snd st' ! k = snd (entryUV libm rs az k)"
    using st'(4) by (metis fst_conv snd_conv)
  ultimately show ?thesis using st'(2,3) by blast
qed

text \<open>
  C7. Run by all \<open>W > 0\<close> workers on outputs as long as the ray array, the pre-process
  vertex returns and has stored \<open>u = 0\<close> and \<open>v = 0\<close> for every entry whose
  ESCAPED flag is not set, whatever else the entry holds.
\<close>

theorem PreProcess_not_escaped_zero:
  assumes "0 < W" "length us = length rs" "length vs = length rs"
  shows "\<exists>us' vs'. PreProcessEscapedRays_vertex libm W rs az (us, vs) = Some (us', vs') \<and>
      length us' = length rs \<and> length vs' = length rs \<and>
      (\<forall>k<length rs. flags (h (rs ! k)) AND ESCAPED = 0 \<longrightarrow> us' ! k = Fin 0 \<and> vs' ! k = Fin 0)"
proof -
  from preProcess_vertex[OF assms, of libm az] obtain us' vs' where
    a: "PreProcessEscapedRays_vertex libm W rs az (us, vs) = Some (us', vs')"
       "length us' = length rs" "length vs' = length rs"
       "\<forall>k<length rs. us' ! k = fst (entryUV libm rs az k) \<and> vs' ! k = snd (entryUV libm rs az k)"
    by blast
  have "\<forall>k<length rs. flags (h (rs ! k)) AND ESCAPED = 0 \<longrightarrow> us' ! k = Fin 0 \<and> vs' ! k = Fin 0"
    using a(4) by (simp add: entryUV_def)
  with a(1-3) show ?thesis by blast
qed

theorem PreProcess_not_escaped_zero_witness:
  "\<exists>us' vs'. PreProcessEscapedRays_vertex (fixedLibm NaN NaN) 2
       [escapedTowards (vec3 (Fin 0) (Fin 1) (Fin 0)),
        (escapedTowards (vec3 NaN PosInf (Fin 7)))\<lparr>h := (h (escapedTowards (vec3 NaN PosInf (Fin 7))))\<lparr>flags := ERROR\<rparr>\<rparr>]
       (Fin 1) ([NaN, NaN], [NaN, NaN]) = Some (us', vs') \<and> us' ! 1 = Fin 0 \<and> vs' ! 1 = Fin 0"
  (is "\<exists>us' vs'. PreProcessEscapedRays_vertex ?lib 2 ?rs (Fin 1) (?us, ?vs) = Some (us', vs') \<and> _")
proof -
  have a: "0 < (2::nat)" "length ?us = length ?rs" by simp_all
  from PreProcess_not_escaped_zero[OF a(1) a(2) a(2), of ?lib "Fin 1"] obtain us' vs' where
    run: "PreProcessEscapedRays_vertex ?lib 2 ?rs (Fin 1) (?us, ?vs) = Some (us', vs')"
    and e: "\<forall>k<length ?rs. flags (h (?rs ! k)) AND ESCAPED = 0 \<longrightarrow> us' ! k = Fin 0 \<and> vs' ! k = Fin 0"
    by blast
  have "flags (h (?rs ! 1)) AND ESCAPED = 0" by (simp add: ERROR_def ESCAPED_def)
  with e have "us' ! 1 = Fin 0 \<and> vs' ! 1 = Fin 0" by simp
  with run show ?thesis by blast
qed



lemma wrapPhi_unchanged:
  "\<not> flt phi (Fin 0) \<Longrightarrow> \<not> flt TwoPi phi \<Longrightarrow> wrapPhi phi = phi"
  by (simp add: wrapPhi_def fgt_def)











section \<open>Bounds3d\<close>

lemma std_min_PosInf: "a \<noteq> NaN \<Longrightarrow> std_min PosInf a = a"
  by (cases a) (simp_all add: std_min_def)

lemma std_max_NegInf: "a \<noteq> NaN \<Longrightarrow> std_max NegInf a = a"
  by (cases a) (simp_all add: std_max_def)

lemma flt_irrefl: "\<not> flt a a"
  by (cases a) simp_all

lemma flt_asym: "flt a b \<Longrightarrow> \<not> flt b a"
  by (cases a; cases b) simp_all

lemma std_min_lower: "\<not> flt a (std_min a b) \<and> \<not> flt b (std_min a b)"
  using flt_asym[of b a] by (simp add: std_min_def flt_irrefl)

lemma std_max_upper: "\<not> flt (std_max a b) a \<and> \<not> flt (std_max a b) b"
  using flt_asym[of a b] by (simp add: std_max_def flt_irrefl)

text \<open>
  C9, as stated, fails on NaN. \<open>std::min(a, b)\<close> returns \<open>a\<close> unless \<open>b < a\<close>, so
  extending the default box by a box or point with a NaN component keeps the infinity of
  the default box in that component.
\<close>

theorem Bounds3d_default_extend_NaN:
  "extend_box Bounds3d_default \<lparr>bmin = vec3 NaN (Fin 0) (Fin 0), bmax = vec3 (Fin 1) (Fin 1) (Fin 1)\<rparr>
     = \<lparr>bmin = vec3 PosInf (Fin 0) (Fin 0), bmax = vec3 (Fin 1) (Fin 1) (Fin 1)\<rparr>
   \<and> extend_box Bounds3d_default \<lparr>bmin = vec3 NaN (Fin 0) (Fin 0), bmax = vec3 (Fin 1) (Fin 1) (Fin 1)\<rparr>
     \<noteq> \<lparr>bmin = vec3 NaN (Fin 0) (Fin 0), bmax = vec3 (Fin 1) (Fin 1) (Fin 1)\<rparr>
   \<and> extend_point Bounds3d_default (vec3 NaN (Fin 0) (Fin 0))
     \<noteq> \<lparr>bmin = vec3 NaN (Fin 0) (Fin 0), bmax = vec3 NaN (Fin 0) (Fin 0)\<rparr>"
  by (simp add: extend_box_def extend_point_def Bounds3d_default_def vec1_def vec3_def
      std_min_def std_max_def)

text \<open>
  C9, amended. The default box has \<open>min = +\<infinity>\<close> and \<open>max = -\<infinity>\<close> in every
  component. Extending it by a box \<open>b\<close> with no NaN component gives \<open>b\<close>, and by a
  point \<open>q\<close> with no NaN component the box with \<open>min = max = q\<close>. Extending any box
  takes \<open>Vec3fa::min\<close> of the minima and \<open>Vec3fa::max\<close> of the maxima, and no component
  of an operand is below the new minimum or above the new maximum.
\<close>

theorem Bounds3d_default_is_identity:
  assumes "noNaN (bmin b)" "noNaN (bmax b)" "noNaN q"
  shows "Bounds3d_default = \<lparr>bmin = vec3 PosInf PosInf PosInf, bmax = vec3 NegInf NegInf NegInf\<rparr>
   \<and> extend_box Bounds3d_default b = b
   \<and> extend_point Bounds3d_default q = \<lparr>bmin = q, bmax = q\<rparr>
   \<and> bmin (extend_box a b) = vmin (bmin a) (bmin b) \<and> bmax (extend_box a b) = vmax (bmax a) (bmax b)
   \<and> bmin (extend_point a q) = vmin (bmin a) q \<and> bmax (extend_point a q) = vmax (bmax a) q
   \<and> noneBelow (vmin (bmin a) (bmin b)) (bmin a) \<and> noneBelow (vmin (bmin a) (bmin b)) (bmin b)
   \<and> noneBelow (bmax a) (vmax (bmax a) (bmax b)) \<and> noneBelow (bmax b) (vmax (bmax a) (bmax b))"
proof (intro conjI)
  show "Bounds3d_default = \<lparr>bmin = vec3 PosInf PosInf PosInf, bmax = vec3 NegInf NegInf NegInf\<rparr>"
    by (simp add: Bounds3d_default_def vec1_def)
  show "extend_box Bounds3d_default b = b"
    using assms(1,2)
    by (simp add: extend_box_def Bounds3d_default_def vec1_def vec3_def noNaN_def
        std_min_PosInf std_max_NegInf)
  show "extend_point Bounds3d_default q = \<lparr>bmin = q, bmax = q\<rparr>"
    using assms(3)
    by (simp add: extend_point_def Bounds3d_default_def vec1_def vec3_def noNaN_def
        std_min_PosInf std_max_NegInf)
  show "bmin (extend_box a b) = vmin (bmin a) (bmin b)" by (simp add: extend_box_def vmin_def)
  show "bmax (extend_box a b) = vmax (bmax a) (bmax b)" by (simp add: extend_box_def vmax_def)
  show "bmin (extend_point a q) = vmin (bmin a) q" by (simp add: extend_point_def vmin_def)
  show "bmax (extend_point a q) = vmax (bmax a) q" by (simp add: extend_point_def vmax_def)
  show "noneBelow (vmin (bmin a) (bmin b)) (bmin a)"
    by (simp add: noneBelow_def vmin_def vec3_def std_min_lower)
  show "noneBelow (vmin (bmin a) (bmin b)) (bmin b)"
    by (simp add: noneBelow_def vmin_def vec3_def std_min_lower)
  show "noneBelow (bmax a) (vmax (bmax a) (bmax b))"
    by (simp add: noneBelow_def vmax_def vec3_def std_max_upper)
  show "noneBelow (bmax b) (vmax (bmax a) (bmax b))"
    by (simp add: noneBelow_def vmax_def vec3_def std_max_upper)
qed

theorem Bounds3d_default_is_identity_witness:
  "extend_box Bounds3d_default \<lparr>bmin = vec3 (Fin 0) (Fin 0) NegInf, bmax = vec3 (Fin 1) PosInf (Fin 1)\<rparr>
     = \<lparr>bmin = vec3 (Fin 0) (Fin 0) NegInf, bmax = vec3 (Fin 1) PosInf (Fin 1)\<rparr>
   \<and> extend_point Bounds3d_default (vec3 (Fin 1) (Fin 2) (Fin 3))
     = \<lparr>bmin = vec3 (Fin 1) (Fin 2) (Fin 3), bmax = vec3 (Fin 1) (Fin 2) (Fin 3)\<rparr>"
proof -
  let ?b = "\<lparr>bmin = vec3 (Fin 0) (Fin 0) NegInf, bmax = vec3 (Fin 1) PosInf (Fin 1)\<rparr>"
  have a: "noNaN (bmin ?b)" "noNaN (bmax ?b)" "noNaN (vec3 (Fin 1) (Fin 2) (Fin 3))"
    by (simp_all add: noNaN_def vec3_def)
  from Bounds3d_default_is_identity[OF a] show ?thesis by blast
qed

section \<open>PathTrace\<close>

lemma bounce_miss:
  assumes "fst (intersect env (rayForBounce env (h (result st)))) = None"
  shows "bounce env scene i st =
     (Break, st\<lparr>result := (result st)\<lparr>h := (h (result st))
        \<lparr>r := snd (intersect env (rayForBounce env (h (result st)))),
         flags := flags (h (result st)) OR ESCAPED\<rparr>\<rparr>\<rparr>)"
  using assms by (simp add: bounce_def Let_def)

lemma bounce_hit:
  assumes "fst (intersect env (rayForBounce env (h (result st)))) = Some prim"
  shows "bounce env scene i st =
    (let hit2 = updateHit env prim ((h (result st))\<lparr>r := snd (intersect env (rayForBounce env (h (result st))))\<rparr>);
         material = materialOf scene hit2;
         shaded = shade env material ((result st)\<lparr>h := hit2\<rparr>) (rng st)
     in roulette env scene i
          \<lparr>result = fst shaded,
           color = (if emissive material
                    then vadd (color st) (vmul (throughput hit2) (emission material)) else color st),
           rng = snd shaded\<rparr>)"
  using assms by (simp add: bounce_def Let_def)

lemma fmul_NaN_right: "fmul a NaN = NaN"
  by (simp add: fmul_def)

lemma vmul_NaN: "vmul a (vec1 NaN) = vec3 NaN NaN NaN"
  by (simp add: vmul_def vec1_def vec3_def fmul_NaN_right)

lemma vadd_NaN: "vadd (vec3 NaN NaN NaN) a = vec3 NaN NaN NaN"
  by (simp add: vadd_def vec3_def)

lemma shade_rgb:
  "rgb (fst (shade env m res n)) = rgb res \<or> rgb (fst (shade env m res n)) = vec3 NaN NaN NaN"
  by (simp add: shade_def Let_def vmul_NaN)

lemma shade_other:
  assumes "mtype m \<noteq> Diffuse" "mtype m \<noteq> Specular" "mtype m \<noteq> Refractive"
  shows "shade env m res n =
     (res\<lparr>rgb := vec3 NaN NaN NaN, h := (h res)\<lparr>flags := flags (h res) OR ERROR\<rparr>\<rparr>, n)"
  using assms by (simp add: shade_def Let_def vmul_NaN)

lemma roulette_result: "result (snd (roulette env scene i st)) = result st"
  by (simp add: roulette_def Let_def)

lemma roulette_color: "color (snd (roulette env scene i st)) = color st"
  by (simp add: roulette_def Let_def)

lemma roulette_rng:
  "rng (snd (roulette env scene i st)) = (if unat (rouletteStartDepth scene) < i then rng st + 1 else rng st)"
  by (simp add: roulette_def Let_def)

lemma roulette_not_after:
  "i \<le> unat (rouletteStartDepth scene) \<Longrightarrow> roulette env scene i st = (Continue, st)"
  by (simp add: roulette_def)

lemma roulette_after:
  "unat (rouletteStartDepth scene) < i \<Longrightarrow>
   roulette env scene i st =
     ((if evaluateRoulette env (hw_uniform_0_1 env (rng st)) (throughput (h (result st)))
       then Break else Continue), st\<lparr>rng := rng st + 1\<rparr>)"
  by (simp add: roulette_def Let_def)

lemma roulette_break:
  "fst (roulette env scene i st) = Break \<longleftrightarrow>
     unat (rouletteStartDepth scene) < i \<and>
     evaluateRoulette env (hw_uniform_0_1 env (rng st)) (throughput (h (result st)))"
  by (simp add: roulette_def Let_def)

lemma bounce_rgb:
  "rgb (result (snd (bounce env scene i st))) = rgb (result st)
   \<or> rgb (result (snd (bounce env scene i st))) = vec3 NaN NaN NaN"
proof (cases "fst (intersect env (rayForBounce env (h (result st))))")
  case None
  then show ?thesis by (simp add: bounce_miss)
next
  case (Some prim)
  let ?hit2 = "updateHit env prim ((h (result st))\<lparr>r := snd (intersect env (rayForBounce env (h (result st))))\<rparr>)"
  from shade_rgb[of env "materialOf scene ?hit2" "(result st)\<lparr>h := ?hit2\<rparr>" "rng st"]
  show ?thesis
    by (simp add: bounce_hit[OF Some] Let_def roulette_result)
qed

lemma bounceLoop_keeps_NaN:
  "rgb (result st) = vec3 NaN NaN NaN \<Longrightarrow>
   rgb (result (bounceLoop env scene n i st)) = vec3 NaN NaN NaN"
proof (induction n arbitrary: i st)
  case 0
  then show ?case by simp
next
  case (Suc n)
  obtain ctl st' where b: "bounce env scene i st = (ctl, st')" by (cases "bounce env scene i st")
  from bounce_rgb[of env scene i st] b Suc.prems
  have nan: "rgb (result st') = vec3 NaN NaN NaN" by auto
  show ?case
  proof (cases ctl)
    case Continue
    with b show ?thesis using Suc.IH[OF nan] by simp
  next
    case Break
    with b nan show ?thesis by simp
  qed
qed

lemma fixed_hit: "fst (intersect (fixedEnv (Some a) stop) ray) = Some a"
  by (simp add: fixedEnv_def)

text \<open>
  C5. When the BVH query of an iteration finds no hit, the iteration sets the ESCAPED flag
  and breaks out of the bounce loop. Apart from the ray handed to the query and the flag,
  the state is the one before the iteration: throughput, running colour, accumulated
  colour and the count of random draws are unchanged, and the outcome does not depend on
  the scene's materials or roulette depth.
\<close>

theorem bounce_miss_escapes:
  assumes "fst (intersect env (rayForBounce env (h (result st)))) = None"
  shows "bounce env scene i st =
     (Break, st\<lparr>result := (result st)\<lparr>h := (h (result st))
        \<lparr>r := snd (intersect env (rayForBounce env (h (result st)))),
         flags := flags (h (result st)) OR ESCAPED\<rparr>\<rparr>\<rparr>)
   \<and> bounceLoop env scene (Suc n) i st = snd (bounce env scene i st)
   \<and> flags (h (result (snd (bounce env scene i st)))) AND ESCAPED = ESCAPED
   \<and> throughput (h (result (snd (bounce env scene i st)))) = throughput (h (result st))
   \<and> color (snd (bounce env scene i st)) = color st
   \<and> rgb (result (snd (bounce env scene i st))) = rgb (result st)
   \<and> rng (snd (bounce env scene i st)) = rng st
   \<and> bounce env scene' i st = bounce env scene i st"
proof -
  note m = bounce_miss[OF assms]
  have "flags (h (result (snd (bounce env scene i st)))) AND ESCAPED = ESCAPED"
    by (simp add: m word_ao_absorbs)
  then show ?thesis by (simp add: m)
qed

theorem bounce_miss_escapes_witness:
  "fst (bounce (fixedEnv None True) (oneMaterialScene Diffuse 3 0) 2 freshPath) = Break
   \<and> flags (h (result (snd (bounce (fixedEnv None True) (oneMaterialScene Diffuse 3 0) 2 freshPath)))) AND ESCAPED = ESCAPED
   \<and> throughput (h (result (snd (bounce (fixedEnv None True) (oneMaterialScene Diffuse 3 0) 2 freshPath)))) = vec1 (Fin 1)
   \<and> rng (snd (bounce (fixedEnv None True) (oneMaterialScene Diffuse 3 0) 2 freshPath)) = 0"
proof -
  let ?env = "fixedEnv None True"
  have miss: "fst (intersect ?env (rayForBounce ?env (h (result freshPath)))) = None"
    by (simp add: fixedEnv_def)
  have t: "throughput (h (result freshPath)) = vec1 (Fin 1)" "rng freshPath = 0"
    by (simp_all add: freshPath_def freshResult_def HitRecord_ctor_def)
  from bounce_miss_escapes[OF miss, of "oneMaterialScene Diffuse 3 0" 2] t show ?thesis by simp
qed

text \<open>
  C6. When the material of a hit has a tag other than Diffuse, Specular and Refractive,
  the iteration sets the ERROR flag on the hit record and makes every component of the
  result's colour NaN. The iteration ends as any other (it breaks only if the roulette
  says so), and the colour is still NaN when the bounce loop ends and after the running
  colour has been added.
\<close>

theorem unknown_material_poisons:
  assumes hit: "fst (intersect env (rayForBounce env (h (result st)))) = Some prim"
    and hit2: "hit2 = updateHit env prim
                 ((h (result st))\<lparr>r := snd (intersect env (rayForBounce env (h (result st))))\<rparr>)"
    and tag: "mtype (materialOf scene hit2) \<noteq> Diffuse" "mtype (materialOf scene hit2) \<noteq> Specular"
             "mtype (materialOf scene hit2) \<noteq> Refractive"
  shows "flags (h (result (snd (bounce env scene i st)))) = flags hit2 OR ERROR
   \<and> flags (h (result (snd (bounce env scene i st)))) AND ERROR = ERROR
   \<and> rgb (result (snd (bounce env scene i st))) = vec3 NaN NaN NaN
   \<and> throughput (h (result (snd (bounce env scene i st)))) = throughput hit2
   \<and> (fst (bounce env scene i st) = Break \<longleftrightarrow>
        unat (rouletteStartDepth scene) < i \<and>
        evaluateRoulette env (hw_uniform_0_1 env (rng st)) (throughput hit2))
   \<and> rgb (result (bounceLoop env scene (Suc n) i st)) = vec3 NaN NaN NaN
   \<and> vadd (rgb (result (bounceLoop env scene (Suc n) i st)))
            (color (bounceLoop env scene (Suc n) i st)) = vec3 NaN NaN NaN"
proof -
  let ?m = "materialOf scene hit2"
  let ?col = "if emissive ?m then vadd (color st) (vmul (throughput hit2) (emission ?m)) else color st"
  let ?st1 = "\<lparr>result = (result st)\<lparr>rgb := vec3 NaN NaN NaN, h := hit2\<lparr>flags := flags hit2 OR ERROR\<rparr>\<rparr>,
               color = ?col, rng = rng st\<rparr>"
  have b: "bounce env scene i st = roulette env scene i ?st1"
    using tag by (simp add: bounce_hit[OF hit] hit2[symmetric] Let_def shade_other)
  have res: "result (snd (bounce env scene i st)) = result ?st1"
    by (simp only: b roulette_result)
  have f1: "flags (h (result (snd (bounce env scene i st)))) = flags hit2 OR ERROR"
    by (simp add: res)
  have f2: "flags (h (result (snd (bounce env scene i st)))) AND ERROR = ERROR"
    by (simp add: res word_ao_absorbs)
  have roulette_skipped_at_start_depth: "rgb (result (snd (bounce env scene i st))) = vec3 NaN NaN NaN"
    by (simp add: res)
  have t1: "throughput (h (result (snd (bounce env scene i st)))) = throughput hit2"
    by (simp add: res)
  have br: "fst (bounce env scene i st) = Break \<longleftrightarrow>
        unat (rouletteStartDepth scene) < i \<and>
        evaluateRoulette env (hw_uniform_0_1 env (rng st)) (throughput hit2)"
    by (simp add: b roulette_break)
  have loop: "rgb (result (bounceLoop env scene (Suc n) i st)) = vec3 NaN NaN NaN"
  proof (cases "bounce env scene i st")
    case (Pair ctl st')
    with roulette_skipped_at_start_depth have nan: "rgb (result st') = vec3 NaN NaN NaN" by simp
    show ?thesis
    proof (cases ctl)
      case Continue
      with Pair show ?thesis using bounceLoop_keeps_NaN[OF nan] by simp
    next
      case Break
      with Pair nan show ?thesis by simp
    qed
  qed
  have fin: "vadd (rgb (result (bounceLoop env scene (Suc n) i st)))
            (color (bounceLoop env scene (Suc n) i st)) = vec3 NaN NaN NaN"
    by (simp only: loop vadd_NaN)
  show ?thesis using f1 f2 roulette_skipped_at_start_depth t1 br loop fin by blast
qed

theorem unknown_material_poisons_witness:
  "flags (h (result (snd (bounce (fixedEnv (Some 0) False) (oneMaterialScene (OtherType 7) 3 0) 0 freshPath))))
      = ERROR
   \<and> rgb (result (bounceLoop (fixedEnv (Some 0) False) (oneMaterialScene (OtherType 7) 3 0) (Suc 2) 0 freshPath))
      = vec3 NaN NaN NaN"
proof -
  let ?env = "fixedEnv (Some 0) False"
  let ?scene = "oneMaterialScene (OtherType 7) 3 0"
  let ?hit2 = "updateHit ?env 0
                 ((h (result freshPath))\<lparr>r := snd (intersect ?env (rayForBounce ?env (h (result freshPath))))\<rparr>)"
  have hit: "fst (intersect ?env (rayForBounce ?env (h (result freshPath)))) = Some 0"
    by (rule fixed_hit)
  have m: "mtype (materialOf ?scene ?hit2) = OtherType 7"
    by (simp add: materialOf_def oneMaterialScene_def fixedEnv_def)
  have tag: "mtype (materialOf ?scene ?hit2) \<noteq> Diffuse" "mtype (materialOf ?scene ?hit2) \<noteq> Specular"
            "mtype (materialOf ?scene ?hit2) \<noteq> Refractive"
    by (simp_all only: m MaterialType.distinct not_False_eq_True)
  have fl: "flags ?hit2 = 0"
    by (simp add: fixedEnv_def freshPath_def freshResult_def HitRecord_ctor_def)
  from unknown_material_poisons[OF hit refl tag, of 0 2] fl show ?thesis by simp
qed

text \<open>
  C1. \<open>rouletteStartDepth\<close> is documented as the depth at which random stopping is
  enabled, but the loop tests \<open>i > rouletteStartDepth\<close>. With a start depth of 0, a
  path length of 2, a surface hit at every bounce and a roulette that always stops: bounce
  0 draws no sample and continues; bounce 1 draws one sample and breaks. The ray ends with
  one draw and the throughput of two bounces, \<open>1/4\<close>.
\<close>

theorem roulette_skipped_at_start_depth:
  "fst (bounce (fixedEnv (Some 0) True) (oneMaterialScene Specular 2 0) 0 freshPath) = Continue
   \<and> rng (snd (bounce (fixedEnv (Some 0) True) (oneMaterialScene Specular 2 0) 0 freshPath)) = 0
   \<and> fst (bounce (fixedEnv (Some 0) True) (oneMaterialScene Specular 2 0) 1 freshPath) = Break
   \<and> rng (snd (bounce (fixedEnv (Some 0) True) (oneMaterialScene Specular 2 0) 1 freshPath)) = 1
   \<and> rngCount (pathTraceRay (fixedEnv (Some 0) True) (oneMaterialScene Specular 2 0) 0
                 \<lparr>rays = [freshResult], rngCount = 0\<rparr>) = 1
   \<and> throughput (h (rays (pathTraceRay (fixedEnv (Some 0) True) (oneMaterialScene Specular 2 0) 0
                 \<lparr>rays = [freshResult], rngCount = 0\<rparr>) ! 0)) = vec1 (Fin (1 / 4))"
proof -
  let ?env = "fixedEnv (Some 0) True"
  let ?scene = "oneMaterialScene Specular 2 0"
  note defs = bounce_def roulette_def shade_def rayForBounce_def materialOf_def hw_uniform_0_1_def
    fixedEnv_def oneMaterialScene_def freshPath_def freshResult_def HitRecord_ctor_def Ray_ctor_def
    vmul_def vadd_def vec1_def vec3_def Let_def fmul_Fin roundF32_zero roundF32_half
    roundF32_quarter
  have two: "unat (maxPathLength ?scene) = Suc (Suc 0)"
    by (simp add: oneMaterialScene_def)
  have b0: "fst (bounce ?env ?scene 0 freshPath) = Continue
            \<and> rng (snd (bounce ?env ?scene 0 freshPath)) = 0"
    by (simp add: defs)
  have b1: "fst (bounce ?env ?scene 1 freshPath) = Break
            \<and> rng (snd (bounce ?env ?scene 1 freshPath)) = 1"
    by (simp add: defs)
  have p: "pathTraceRay ?env ?scene 0 \<lparr>rays = [freshResult], rngCount = 0\<rparr>
     = \<lparr>rays = [freshResult\<lparr>h := (h freshResult)\<lparr>primID := 0, geomID := 0,
                       throughput := vec1 (Fin (1 / 4))\<rparr>\<rparr>], rngCount = 1\<rparr>"
    unfolding pathTraceRay_def two by (simp add: defs)
  show ?thesis
    using b0 b1 by (simp add: p)
qed

end
